theory Spec2Isabelle
  imports Complex_Main
begin

section \<open>Characters and numbers\<close>

text \<open>
  Messages are Python \<open>str\<close> values; here they are \<open>string\<close>s over the ASCII range.
  The classes below are those of Python's \<open>re\<close> module on ASCII characters:
  \<open>\s\<close>, \<open>[0-9]\<close>, \<open>\w\<close> (for \<open>\b\<close>), and case folding for \<open>re.IGNORECASE\<close>.
  Prices are Python floats; they are modelled as reals, so that a decimal token denotes
  exactly its decimal value (rounding, overflow and underflow of binary floating point
  are not modelled).
\<close>

definition is_space :: "char \<Rightarrow> bool" where
  "is_space c = (let n = (of_char c :: int) in (9 \<le> n \<and> n \<le> 13) \<or> (28 \<le> n \<and> n \<le> 32))"

definition is_digit :: "char \<Rightarrow> bool" where
  "is_digit c = (let n = (of_char c :: int) in 48 \<le> n \<and> n \<le> 57)"

definition is_word :: "char \<Rightarrow> bool" where
  "is_word c = (let n = (of_char c :: int) in
     (48 \<le> n \<and> n \<le> 57) \<or> (65 \<le> n \<and> n \<le> 90) \<or> n = 95 \<or> (97 \<le> n \<and> n \<le> 122))"

definition lower_char :: "char \<Rightarrow> char" where
  "lower_char c = (let n = (of_char c :: int) in
     if 65 \<le> n \<and> n \<le> 90 then char_of (n + 32) else c)"

definition lower :: "string \<Rightarrow> string" where
  "lower s = map lower_char s"

definition strip :: "string \<Rightarrow> string" where
  "strip s = rev (dropWhile is_space (rev (dropWhile is_space s)))"

definition digits_val :: "string \<Rightarrow> int" where
  "digits_val s = foldl (\<lambda>a c. 10 * a + (of_char c - 48)) 0 s"

text \<open>
  \<open>float(s)\<close> on the tokens that the capture group \<open>([0-9]+\.?[0-9]*)\<close> can produce:
  digits, then optionally a dot and further digits. \<open>None\<close> is Python's \<open>ValueError\<close>.
\<close>

definition py_float :: "string \<Rightarrow> real option" where
  "py_float s =
     (let ip = takeWhile is_digit s; r = dropWhile is_digit s in
      if ip = [] then None
      else if r = [] then Some (real_of_int (digits_val ip))
      else if hd r = CHR ''.'' \<and> list_all is_digit (tl r)
        then Some (real_of_int (digits_val ip) + real_of_int (digits_val (tl r)) / 10 ^ length (tl r))
      else None)"

section \<open>Regular expressions: the fragment of Python's \<open>re\<close> used by the patterns\<close>

datatype cclass = Space | Digit

fun in_class :: "cclass \<Rightarrow> char \<Rightarrow> bool" where
  "in_class Space c = is_space c"
| "in_class Digit c = is_digit c"

text \<open>
  \<open>Lit w\<close> is a literal matched ignoring case; \<open>Rep c k\<close> is a greedy repetition of a
  character class with at least \<open>k\<close> characters (\<open>\s*\<close>, \<open>\s+\<close>, \<open>[0-9]*\<close>, \<open>[0-9]+\<close>);
  \<open>Opt r\<close> is the greedy \<open>r?\<close>; \<open>Grp n r\<close> is capture group \<open>n\<close>; \<open>Bnd\<close> is \<open>\b\<close>.
\<close>

datatype rx = Lit string | Rep cclass nat | Opt rx | Alt rx rx | Seq rx rx | Grp nat rx | Bnd

text \<open>
  A matcher state: the text before the cursor (reversed), the text after it, and the
  capture groups closed so far.
\<close>

record mstate =
  rpre :: string
  post :: string
  grps :: "(nat \<times> string) list"

definition advance :: "nat \<Rightarrow> mstate \<Rightarrow> mstate" where
  "advance k s = s\<lparr>rpre := rev (take k (post s)) @ rpre s, post := drop k (post s)\<rparr>"

definition at_boundary :: "mstate \<Rightarrow> bool" where
  "at_boundary s =
     ((case rpre s of [] \<Rightarrow> False | c # _ \<Rightarrow> is_word c) \<noteq>
      (case post s of [] \<Rightarrow> False | c # _ \<Rightarrow> is_word c))"

text \<open>
  All ways to match a pattern at the cursor, in the order in which a backtracking matcher
  tries them (greedy quantifiers longest first, alternatives left to right).
\<close>

primrec ms :: "rx \<Rightarrow> mstate \<Rightarrow> mstate list" where
  "ms (Lit w) s =
     (if length w \<le> length (post s) \<and> lower (take (length w) (post s)) = lower w
      then [advance (length w) s] else [])"
| "ms (Rep c k) s =
     (let n = length (takeWhile (in_class c) (post s)) in
      map (\<lambda>j. advance j s) (filter (\<lambda>j. k \<le> j) (rev [0..<Suc n])))"
| "ms (Opt r) s = ms r s @ [s]"
| "ms (Alt a b) s = ms a s @ ms b s"
| "ms (Seq a b) s = concat (map (ms b) (ms a s))"
| "ms (Grp n r) s =
     map (\<lambda>s'. s'\<lparr>grps := (n, take (length (post s) - length (post s')) (post s)) # grps s'\<rparr>)
       (ms r s)"
| "ms Bnd s = (if at_boundary s then [s] else [])"

text \<open>\<open>pattern.search(message)\<close>: the first match at the leftmost position that has one.\<close>

fun search_from :: "rx \<Rightarrow> string \<Rightarrow> string \<Rightarrow> mstate option" where
  "search_from r pre [] =
     (case ms r \<lparr>rpre = pre, post = [], grps = []\<rparr> of [] \<Rightarrow> None | m # _ \<Rightarrow> Some m)"
| "search_from r pre (c # cs) =
     (case ms r \<lparr>rpre = pre, post = c # cs, grps = []\<rparr> of
        [] \<Rightarrow> search_from r (c # pre) cs
      | m # _ \<Rightarrow> Some m)"

definition search :: "rx \<Rightarrow> string \<Rightarrow> mstate option" where
  "search r message = search_from r [] message"

definition group :: "mstate \<Rightarrow> nat \<Rightarrow> string option" where
  "group m n = map_of (grps m) n"

fun seqs :: "rx list \<Rightarrow> rx" where
  "seqs [] = Lit []"
| "seqs [r] = r"
| "seqs (r # rs) = Seq r (seqs rs)"

fun alts :: "string list \<Rightarrow> rx" where
  "alts [] = Lit []"
| "alts [w] = Lit w"
| "alts (w # ws) = Alt (Lit w) (alts ws)"

text \<open>The number token \<open>[0-9]+\.?[0-9]*\<close> and the capture group \<open>n\<close> around it.\<close>

definition numbody :: rx where
  "numbody = seqs [Rep Digit 1, Opt (Lit ''.''), Rep Digit 0]"

definition NUM :: "nat \<Rightarrow> rx" where
  "NUM n = Grp n numbody"

definition ws0 :: rx where "ws0 = Rep Space 0"
definition ws1 :: rx where "ws1 = Rep Space 1"

section \<open>TradeParams\<close>

record TradeParams =
  trade_type :: string
  entry_price :: "real option"
  entry_range :: "(real \<times> real) option"
  stop_loss :: real
  take_profit :: "real option"
  raw_message :: string

definition is_range_entry :: "TradeParams \<Rightarrow> bool" where
  "is_range_entry t = (entry_range t \<noteq> None)"

text \<open>
  \<open>get_pending_price\<close> returns \<open>self.entry_price\<close> (which may be \<open>None\<close>) when no range
  is set, hence the optional result.
\<close>

definition get_pending_price :: "TradeParams \<Rightarrow> string \<Rightarrow> real \<Rightarrow> real option" where
  "get_pending_price t entry_strategy central_zone =
     (case entry_range t of
        Some (min_p, max_p) \<Rightarrow>
          (let price =
             (if entry_strategy = ''auto''
              then (if trade_type t = ''buy'' then min_p else max_p)
              else (let base = lower (strip entry_strategy) in
                    if base = ''min'' then (if trade_type t = ''buy'' then min_p else max_p)
                    else if base = ''max'' then (if trade_type t = ''buy'' then max_p else min_p)
                    else (if trade_type t = ''buy'' then min_p else max_p)));
               price' =
             (if central_zone \<noteq> 0
              then (if trade_type t = ''buy'' then price + central_zone else price - central_zone)
              else price)
           in Some price')
      | None \<Rightarrow> entry_price t)"

section \<open>MessageProcessor\<close>

definition TRADE_TYPE_PATTERNS :: "(string \<times> rx) list" where
  "TRADE_TYPE_PATTERNS =
     [(''buy'', seqs [Bnd, Grp 1 (alts [''buy'', ''long'', ''bullish'', ''compra'', ''largo'']), Bnd]),
      (''sell'', seqs [Bnd, Grp 1 (alts [''sell'', ''short'', ''bearish'', ''venta'', ''corto'']), Bnd])]"

definition IMMEDIATE_PATTERNS :: "rx list" where
  "IMMEDIATE_PATTERNS =
     [seqs [Bnd, Grp 1 (alts [''buy'', ''sell'']), ws1, Grp 2 (alts [''gold'', ''xauusd'']), ws1,
            Lit ''now'', Bnd],
      seqs [Bnd, Lit ''gold'', ws1, Grp 1 (alts [''buy'', ''sell'']), ws1, Lit ''now'', Bnd],
      seqs [Bnd, Lit ''scalping'', ws1, Grp 1 (alts [''buy'', ''sell'']), Bnd],
      seqs [Bnd, Lit ''let'', Opt (Lit ''s''), ws1, Lit ''scalping'', Bnd]]"

definition RANGE_PATTERNS :: "rx list" where
  "RANGE_PATTERNS =
     [seqs [Lit ''@'', ws0, NUM 1, ws0, Lit ''-'', ws0, NUM 2],
      seqs [Lit ''gold'', ws0, Lit ''@'', ws0, NUM 1, ws0, Lit ''-'', ws0, NUM 2]]"

definition ENTRY_PATTERNS :: "rx list" where
  "ENTRY_PATTERNS =
     [seqs [Lit ''@'', ws0, NUM 1],
      seqs [alts [''entry'', ''enter''], ws0, Opt (Lit '':''), ws0, NUM 1],
      seqs [Lit ''gold'', ws0, Lit ''@'', ws0, NUM 1]]"

definition SL_PATTERNS :: "rx list" where
  "SL_PATTERNS =
     [seqs [Alt (Lit ''sl'') (Alt (seqs [Lit ''stop'', ws0, Lit ''loss'']) (Lit ''stop'')),
            ws0, Opt (Lit '':''), ws0, NUM 1],
      seqs [seqs [Lit ''s'', Opt (Lit ''.''), Lit ''l'', Opt (Lit ''.'')],
            ws0, Opt (Lit '':''), ws0, NUM 1]]"

definition TP_PATTERNS :: "rx list" where
  "TP_PATTERNS =
     [seqs [Alt (Lit ''tp'') (Alt (seqs [Lit ''take'', ws0, Lit ''profit'']) (Lit ''target'')),
            ws0, Opt (Lit ''1''), ws0, Opt (Lit '':''), ws0, NUM 1],
      seqs [Lit ''tp1'', ws0, Opt (Lit '':''), ws0, NUM 1]]"

definition SL_UPDATE_PATTERNS :: "rx list" where
  "SL_UPDATE_PATTERNS =
     [seqs [Lit ''move'', ws1, Lit ''sl'', ws1, alts [''to'', ''at''], ws1, NUM 1],
      seqs [Lit ''update'', ws1, Lit ''sl'', ws1, alts [''to'', ''at''], ws1, NUM 1],
      seqs [Lit ''sl'', ws1, alts [''to'', ''at''], ws1, NUM 1],
      seqs [Lit ''new'', ws1, Lit ''sl'', ws1, alts [''to'', ''at'', ''is''], ws1, NUM 1],
      seqs [Lit ''change'', ws1, Lit ''sl'', ws1, alts [''to'', ''at''], ws1, NUM 1]]"


datatype py_exn = ValueError | TypeError | UnboundLocalError | ZeroDivisionError

fun is_immediate_loop :: "rx list \<Rightarrow> string \<Rightarrow> bool" where
  "is_immediate_loop [] message = False"
| "is_immediate_loop (p # ps) message =
     (if search p message \<noteq> None then True else is_immediate_loop ps message)"

definition is_immediate_execution_message :: "string \<Rightarrow> bool" where
  "is_immediate_execution_message message = is_immediate_loop IMMEDIATE_PATTERNS message"

text \<open>
  The loop shared by \<open>is_sl_update_message\<close>, \<open>_extract_stop_loss\<close>,
  \<open>_extract_take_profit\<close> and the single-price half of \<open>_extract_entry_price\<close>:
  for each pattern in order, on a match return \<open>float(match.group(1))\<close>, and on
  \<open>ValueError\<close> go on with the next pattern. \<open>float(None)\<close> (a group that did not
  take part in the match) raises \<open>TypeError\<close>, which the source does not catch here.
\<close>

fun float_loop :: "rx list \<Rightarrow> string \<Rightarrow> py_exn + real option" where
  "float_loop [] message = Inr None"
| "float_loop (p # ps) message =
     (case search p message of
        None \<Rightarrow> float_loop ps message
      | Some m \<Rightarrow>
          (case group m 1 of
             None \<Rightarrow> Inl TypeError
           | Some g \<Rightarrow>
               (case py_float g of
                  None \<Rightarrow> float_loop ps message
                | Some x \<Rightarrow> Inr (Some x))))"

definition is_sl_update_message :: "string \<Rightarrow> py_exn + real option" where
  "is_sl_update_message message = float_loop SL_UPDATE_PATTERNS message"

fun detect_loop :: "(string \<times> rx) list \<Rightarrow> string \<Rightarrow> string option" where
  "detect_loop [] message = None"
| "detect_loop ((tt, p) # ps) message =
     (if search p message \<noteq> None then Some tt else detect_loop ps message)"

definition detect_trade_type :: "string \<Rightarrow> string option" where
  "detect_trade_type message = detect_loop TRADE_TYPE_PATTERNS message"

datatype entry_data = Range real real | Single real

fun range_loop :: "rx list \<Rightarrow> string \<Rightarrow> py_exn + entry_data option" where
  "range_loop [] message = Inr None"
| "range_loop (p # ps) message =
     (case search p message of
        None \<Rightarrow> range_loop ps message
      | Some m \<Rightarrow>
          (case group m 1 of
             None \<Rightarrow> Inl TypeError
           | Some g1 \<Rightarrow>
               (case py_float g1 of
                  None \<Rightarrow> range_loop ps message
                | Some price1 \<Rightarrow>
                    (case group m 2 of
                       None \<Rightarrow> Inl TypeError
                     | Some g2 \<Rightarrow>
                         (case py_float g2 of
                            None \<Rightarrow> range_loop ps message
                          | Some price2 \<Rightarrow>
                              Inr (Some (Range (min price1 price2) (max price1 price2))))))))"

definition extract_entry_price :: "string \<Rightarrow> py_exn + entry_data option" where
  "extract_entry_price message =
     (case range_loop RANGE_PATTERNS message of
        Inl e \<Rightarrow> Inl e
      | Inr (Some d) \<Rightarrow> Inr (Some d)
      | Inr None \<Rightarrow>
          (case float_loop ENTRY_PATTERNS message of
             Inl e \<Rightarrow> Inl e
           | Inr None \<Rightarrow> Inr None
           | Inr (Some price) \<Rightarrow> Inr (Some (Single price))))"

definition extract_stop_loss :: "string \<Rightarrow> py_exn + real option" where
  "extract_stop_loss message = float_loop SL_PATTERNS message"

definition extract_take_profit :: "string \<Rightarrow> py_exn + real option" where
  "extract_take_profit message = float_loop TP_PATTERNS message"

text \<open>
  \<open>not stop_loss\<close> holds for \<open>None\<close> and for \<open>0.0\<close>; \<open>not entry_data\<close> holds for
  \<open>None\<close> only (the dictionary is never empty).
\<close>

definition extract_parameters :: "string \<Rightarrow> py_exn + TradeParams option" where
  "extract_parameters message =
     (if message = [] then Inr None
      else if is_immediate_execution_message message then Inr None
      else
        (case detect_trade_type message of
           None \<Rightarrow> Inr None
         | Some tt \<Rightarrow>
             (case extract_entry_price message of
                Inl e \<Rightarrow> Inl e
              | Inr entry \<Rightarrow>
                  (case extract_stop_loss message of
                     Inl e \<Rightarrow> Inl e
                   | Inr sl \<Rightarrow>
                       (case extract_take_profit message of
                          Inl e \<Rightarrow> Inl e
                        | Inr tp \<Rightarrow>
                            (case (entry, sl) of
                               (None, _) \<Rightarrow> Inr None
                             | (_, None) \<Rightarrow> Inr None
                             | (Some d, Some stop) \<Rightarrow>
                                 if stop = 0 then Inr None
                                 else
                                   (case d of
                                      Range min_price max_price \<Rightarrow>
                                        Inr (Some \<lparr>trade_type = tt, entry_price = None,
                                          entry_range = Some (min_price, max_price),
                                          stop_loss = stop, take_profit = tp,
                                          raw_message = message\<rparr>)
                                    | Single price \<Rightarrow>
                                        Inr (Some \<lparr>trade_type = tt, entry_price = Some price,
                                          entry_range = None,
                                          stop_loss = stop, take_profit = tp,
                                          raw_message = message\<rparr>))))))))"

text \<open>
  Two syntactic checks on a pattern, used to show that \<open>float(match.group(n))\<close> cannot
  fail: every capture group encloses the number token, and group \<open>n\<close> lies on every path
  through the pattern.
\<close>

primrec numgrps :: "rx \<Rightarrow> bool" where
  "numgrps (Lit w) = True"
| "numgrps (Rep c k) = True"
| "numgrps (Opt r) = numgrps r"
| "numgrps (Alt a b) = (numgrps a \<and> numgrps b)"
| "numgrps (Seq a b) = (numgrps a \<and> numgrps b)"
| "numgrps (Grp n r) = (r = numbody)"
| "numgrps Bnd = True"

primrec sets_grp :: "nat \<Rightarrow> rx \<Rightarrow> bool" where
  "sets_grp n (Lit w) = False"
| "sets_grp n (Rep c k) = False"
| "sets_grp n (Opt r) = False"
| "sets_grp n (Alt a b) = (sets_grp n a \<and> sets_grp n b)"
| "sets_grp n (Seq a b) = (sets_grp n a \<or> sets_grp n b)"
| "sets_grp n (Grp k r) = (k = n \<or> sets_grp n r)"
| "sets_grp n Bnd = False"

definition good :: "mstate \<Rightarrow> bool" where
  "good s = list_all (\<lambda>kg. py_float (snd kg) \<noteq> None) (grps s)"

definition float_pattern :: "rx \<Rightarrow> bool" where
  "float_pattern r = (numgrps r \<and> sets_grp 1 r)"

definition range_pattern :: "rx \<Rightarrow> bool" where
  "range_pattern r = (numgrps r \<and> sets_grp 1 r \<and> sets_grp 2 r)"

section \<open>The trading venue (MetaTrader 5)\<close>

record tick =
  bid :: real
  ask :: real

record symbol_info =
  trade_tick_value :: real
  trade_tick_size :: real
  volume_min :: real

record position =
  pos_ticket :: int
  pos_symbol :: string
  pos_tp :: real

record order =
  ord_ticket :: int
  ord_symbol :: string
  ord_price_open :: real
  ord_tp :: real

datatype order_type =
  ORDER_TYPE_BUY_LIMIT | ORDER_TYPE_SELL_LIMIT | ORDER_TYPE_BUY_STOP | ORDER_TYPE_SELL_STOP

record pending_request =
  rq_symbol :: string
  rq_volume :: real
  rq_type :: order_type
  rq_price :: real
  rq_sl :: real
  rq_tp :: real
  rq_deviation :: int
  rq_magic :: int
  rq_comment :: string
  rq_expiration :: int

text \<open>
  The three request dictionaries passed to \<open>mt5.order_send\<close>:
  a new pending order; \<open>TRADE_ACTION_SLTP symbol position sl tp\<close>;
  \<open>TRADE_ACTION_MODIFY order symbol price sl tp\<close>.
\<close>

datatype request =
  TRADE_ACTION_PENDING pending_request
| TRADE_ACTION_SLTP string int real real
| TRADE_ACTION_MODIFY int string real real real

record send_result =
  retcode :: int
  res_order :: int

definition TRADE_RETCODE_DONE :: int where
  "TRADE_RETCODE_DONE = 10009"

text \<open>
  The venue is a state of some type \<open>'v\<close> with the operations of the \<open>MetaTrader5\<close>
  module that the manager calls. Queries read the state; \<open>order_send\<close> may change it.
  A query that returns \<open>None\<close> or an empty tuple (both false in a condition) is the
  empty list. The module reports failure through its results and does not raise.
  \<open>now\<close> is the clock (\<open>datetime.now()\<close>) in seconds.
\<close>

record 'v mt5 =
  symbol_info_tick :: "'v \<Rightarrow> string \<Rightarrow> tick option"
  symbol_info_of :: "'v \<Rightarrow> string \<Rightarrow> symbol_info option"
  positions_get_symbol :: "'v \<Rightarrow> string \<Rightarrow> position list"
  orders_get_symbol :: "'v \<Rightarrow> string \<Rightarrow> order list"
  positions_get_ticket :: "'v \<Rightarrow> int \<Rightarrow> position list"
  orders_get_ticket :: "'v \<Rightarrow> int \<Rightarrow> order list"
  order_send :: "'v \<Rightarrow> request \<Rightarrow> send_result option \<times> 'v"
  now :: "'v \<Rightarrow> int"

text \<open>The world: the venue state and the calls of \<open>order_send\<close> made so far, with their results.\<close>

record 'v world =
  venue :: 'v
  sent :: "(request \<times> send_result option) list"

definition send :: "'v mt5 \<Rightarrow> 'v world \<Rightarrow> request \<Rightarrow> send_result option \<times> 'v world" where
  "send api w r =
     (case order_send api (venue w) r of
        (res, v') \<Rightarrow> (res, \<lparr>venue = v', sent = sent w @ [(r, res)]\<rparr>))"

definition accepted :: "send_result option \<Rightarrow> bool" where
  "accepted res = (case res of None \<Rightarrow> False | Some r \<Rightarrow> retcode r = TRADE_RETCODE_DONE)"

section \<open>MT5Manager\<close>

record PendingOrder =
  po_ticket :: int
  po_symbol :: string
  po_trade_type :: string
  po_entry_price :: real
  po_stop_loss :: real
  po_take_profit :: real
  po_volume :: real
  po_timestamp :: int
  is_activated :: bool

text \<open>
  The manager: \<open>cfg_entry_strategy\<close> and \<open>cfg_central_zone\<close> are the keys
  \<open>entry_strategy\<close> and \<open>central_zone\<close> of the trading configuration (\<open>None\<close> when the
  key is absent).
\<close>

record MT5Manager =
  symbol :: string
  target_profit :: real
  cfg_entry_strategy :: "string option"
  cfg_central_zone :: "real option"
  pending_orders :: "PendingOrder list"

definition config_entry_strategy :: "MT5Manager \<Rightarrow> string" where
  "config_entry_strategy mgr = (case cfg_entry_strategy mgr of None \<Rightarrow> ''auto'' | Some s \<Rightarrow> s)"

definition config_central_zone :: "MT5Manager \<Rightarrow> real" where
  "config_central_zone mgr = (case cfg_central_zone mgr of None \<Rightarrow> 0 | Some c \<Rightarrow> c)"

definition get_current_price :: "'v mt5 \<Rightarrow> 'v \<Rightarrow> MT5Manager \<Rightarrow> (real \<times> real) option" where
  "get_current_price api v mgr =
     (case symbol_info_tick api v (symbol mgr) of
        Some t \<Rightarrow> Some (bid t, ask t)
      | None \<Rightarrow> None)"

definition get_minimum_volume :: "'v mt5 \<Rightarrow> 'v \<Rightarrow> MT5Manager \<Rightarrow> real" where
  "get_minimum_volume api v mgr =
     (case symbol_info_of api v (symbol mgr) of
        Some si \<Rightarrow> volume_min si
      | None \<Rightarrow> 0.01)"

text \<open>
  \<open>x or d\<close> on numbers is \<open>d\<close> when \<open>x\<close> is zero. A zero divisor raises
  \<open>ZeroDivisionError\<close>, which the function catches and turns into \<open>None\<close>.
\<close>

definition calculate_tp_for_profit ::
  "'v mt5 \<Rightarrow> 'v \<Rightarrow> MT5Manager \<Rightarrow> real \<Rightarrow> string \<Rightarrow> real \<Rightarrow> real option" where
  "calculate_tp_for_profit api v mgr entry tt volume =
     (case symbol_info_of api v (symbol mgr) of
        None \<Rightarrow> None
      | Some si \<Rightarrow>
          (let tick_value = (if trade_tick_value si = 0 then 1.0 else trade_tick_value si);
               tick_size = (if trade_tick_size si = 0 then 0.01 else trade_tick_size si)
           in if tick_value * volume = 0 then None
              else
                (let points_needed = (target_profit mgr * tick_size) / (tick_value * volume)
                 in if tt = ''buy'' then Some (entry + points_needed)
                    else Some (entry - points_needed))))"

text \<open>
  \<open>place_pending_order\<close> returns its boolean result, the manager (whose registry it
  may extend) and the world. A \<open>pending_price\<close> of \<open>None\<close> is resolved from the
  configuration; when that gives \<open>None\<close> as well, the arithmetic in
  \<open>calculate_tp_for_profit\<close> raises inside its own \<open>try\<close> and the order is not placed.
\<close>

definition place_pending_order ::
  "'v mt5 \<Rightarrow> MT5Manager \<Rightarrow> 'v world \<Rightarrow> TradeParams \<Rightarrow> real option
     \<Rightarrow> bool \<times> MT5Manager \<times> 'v world" where
  "place_pending_order api mgr w trade_params pending_price =
     (case get_current_price api (venue w) mgr of
        None \<Rightarrow> (False, mgr, w)
      | Some (bid_p, ask_p) \<Rightarrow>
          (let current_price = (if trade_type trade_params = ''buy'' then ask_p else bid_p);
               volume = get_minimum_volume api (venue w) mgr;
               pending_price' =
                 (case pending_price of
                    None \<Rightarrow> get_pending_price trade_params (config_entry_strategy mgr)
                              (config_central_zone mgr)
                  | Some p \<Rightarrow> Some p)
           in case pending_price' of
                None \<Rightarrow> (False, mgr, w)
              | Some price \<Rightarrow>
                  (case calculate_tp_for_profit api (venue w) mgr price
                          (trade_type trade_params) volume of
                     None \<Rightarrow> (False, mgr, w)
                   | Some tp \<Rightarrow>
                       if tp = 0 then (False, mgr, w)
                       else
                         (let otype =
                            (if trade_type trade_params = ''buy''
                             then (if price < current_price then ORDER_TYPE_BUY_LIMIT
                                   else ORDER_TYPE_BUY_STOP)
                             else (if price > current_price then ORDER_TYPE_SELL_LIMIT
                                   else ORDER_TYPE_SELL_STOP));
                              req = TRADE_ACTION_PENDING
                                \<lparr>rq_symbol = symbol mgr, rq_volume = volume, rq_type = otype,
                                 rq_price = price, rq_sl = stop_loss trade_params, rq_tp = tp,
                                 rq_deviation = 20, rq_magic = 234007,
                                 rq_comment = ''XAU Bot v5.1 Pending'',
                                 rq_expiration = now api (venue w) + 4 * 3600\<rparr>
                          in case send api w req of
                               (None, w') \<Rightarrow> (False, mgr, w')
                             | (Some result, w') \<Rightarrow>
                                 if retcode result \<noteq> TRADE_RETCODE_DONE then (False, mgr, w')
                                 else
                                   (True,
                                    mgr\<lparr>pending_orders := pending_orders mgr @
                                      [\<lparr>po_ticket = res_order result, po_symbol = symbol mgr,
                                        po_trade_type = trade_type trade_params,
                                        po_entry_price = price,
                                        po_stop_loss = stop_loss trade_params,
                                        po_take_profit = tp, po_volume = volume,
                                        po_timestamp = now api (venue w'),
                                        is_activated = False\<rparr>]\<rparr>,
                                    w')))))"

text \<open>The two loops of \<open>update_pending_order_sl\<close>, threading \<open>updated_count\<close> and the world.\<close>

fun sl_positions_loop ::
  "'v mt5 \<Rightarrow> real \<Rightarrow> position list \<Rightarrow> nat \<times> 'v world \<Rightarrow> nat \<times> 'v world" where
  "sl_positions_loop api new_sl [] (updated_count, w) = (updated_count, w)"
| "sl_positions_loop api new_sl (pos # rest) (updated_count, w) =
     (case send api w (TRADE_ACTION_SLTP (pos_symbol pos) (pos_ticket pos) new_sl (pos_tp pos)) of
        (result, w') \<Rightarrow>
          sl_positions_loop api new_sl rest
            (if accepted result then updated_count + 1 else updated_count, w'))"

fun sl_orders_loop ::
  "'v mt5 \<Rightarrow> real \<Rightarrow> order list \<Rightarrow> nat \<times> 'v world \<Rightarrow> nat \<times> 'v world" where
  "sl_orders_loop api new_sl [] (updated_count, w) = (updated_count, w)"
| "sl_orders_loop api new_sl (ord # rest) (updated_count, w) =
     (case send api w (TRADE_ACTION_MODIFY (ord_ticket ord) (ord_symbol ord)
                          (ord_price_open ord) new_sl (ord_tp ord)) of
        (result, w') \<Rightarrow>
          sl_orders_loop api new_sl rest
            (if accepted result then updated_count + 1 else updated_count, w'))"

definition update_pending_order_sl ::
  "'v mt5 \<Rightarrow> MT5Manager \<Rightarrow> 'v world \<Rightarrow> real \<Rightarrow> bool \<times> 'v world" where
  "update_pending_order_sl api mgr w new_sl =
     (case sl_positions_loop api new_sl (positions_get_symbol api (venue w) (symbol mgr)) (0, w) of
        (count_a, w_a) \<Rightarrow>
          (case sl_orders_loop api new_sl (orders_get_symbol api (venue w_a) (symbol mgr))
                  (count_a, w_a) of
             (updated_count, w_b) \<Rightarrow> (updated_count > 0, w_b)))"

text \<open>The loop of \<open>cleanup_expired_orders\<close>, with \<open>active_orders\<close> as accumulator.\<close>

fun cleanup_loop :: "'v mt5 \<Rightarrow> 'v \<Rightarrow> PendingOrder list \<Rightarrow> PendingOrder list \<Rightarrow> PendingOrder list" where
  "cleanup_loop api v [] active_orders = active_orders"
| "cleanup_loop api v (pending_order # rest) active_orders =
     (let order_info = orders_get_ticket api v (po_ticket pending_order);
          position_info = positions_get_ticket api v (po_ticket pending_order)
      in if order_info \<noteq> [] \<or> position_info \<noteq> []
         then cleanup_loop api v rest
                (active_orders @
                   [if position_info \<noteq> [] then pending_order\<lparr>is_activated := True\<rparr>
                    else pending_order])
         else cleanup_loop api v rest active_orders)"

definition cleanup_expired_orders :: "'v mt5 \<Rightarrow> 'v \<Rightarrow> MT5Manager \<Rightarrow> MT5Manager" where
  "cleanup_expired_orders api v mgr =
     mgr\<lparr>pending_orders := cleanup_loop api v (pending_orders mgr) []\<rparr>"

section \<open>TradingBot\<close>

text \<open>
  What \<open>_process_message\<close> did with a message: an SL update with the new value and the
  result of \<open>update_pending_order_sl\<close>; nothing; an order attempt with the extracted
  parameters, the price passed on and the result of \<open>place_pending_order\<close>; or an
  exception, caught and logged by the enclosing \<open>try\<close>.
\<close>

datatype outcome =
  SlUpdate real bool
| NotActionable
| OrderAttempt TradeParams real bool
| Failed py_exn

text \<open>
  \<open>if new_sl:\<close> is false for \<open>None\<close> and for \<open>0.0\<close>. The local \<open>pending_price\<close> is
  assigned in the range branch only, so the call of \<open>place_pending_order\<close> raises
  \<open>UnboundLocalError\<close> for a single-price entry.
\<close>

definition process_message ::
  "'v mt5 \<Rightarrow> MT5Manager \<Rightarrow> 'v world \<Rightarrow> string \<Rightarrow> outcome \<times> MT5Manager \<times> 'v world" where
  "process_message api mgr w message =
     (case is_sl_update_message message of
        Inl e \<Rightarrow> (Failed e, mgr, w)
      | Inr new_sl \<Rightarrow>
          (case (case new_sl of None \<Rightarrow> None | Some x \<Rightarrow> if x = 0 then None else Some x) of
             Some x \<Rightarrow>
               (case update_pending_order_sl api mgr w x of
                  (success, w') \<Rightarrow> (SlUpdate x success, mgr, w'))
           | None \<Rightarrow>
               (case extract_parameters message of
                  Inl e \<Rightarrow> (Failed e, mgr, w)
                | Inr None \<Rightarrow> (NotActionable, mgr, w)
                | Inr (Some trade_params) \<Rightarrow>
                    (case entry_range trade_params of
                       None \<Rightarrow> (Failed UnboundLocalError, mgr, w)
                     | Some _ \<Rightarrow>
                         (case get_pending_price trade_params (config_entry_strategy mgr)
                                 (config_central_zone mgr) of
                            None \<Rightarrow> (Failed TypeError, mgr, w)
                          | Some pending_price \<Rightarrow>
                              (case place_pending_order api mgr w trade_params
                                      (Some pending_price) of
                                 (success, mgr', w') \<Rightarrow>
                                   (OrderAttempt trade_params pending_price success,
                                    mgr', w')))))))"

section \<open>Concrete venues, managers and intents for the examples\<close>

text \<open>
  A venue whose answers do not change: fixed tick, symbol information, positions and
  orders, and a fixed response to every request.
\<close>

definition static_venue ::
  "tick option \<Rightarrow> symbol_info option \<Rightarrow> position list \<Rightarrow> order list \<Rightarrow>
   (request \<Rightarrow> send_result option) \<Rightarrow> unit mt5" where
  "static_venue tk si ps os respond =
     \<lparr>symbol_info_tick = (\<lambda>v s. tk), symbol_info_of = (\<lambda>v s. si),
      positions_get_symbol = (\<lambda>v s. ps), orders_get_symbol = (\<lambda>v s. os),
      positions_get_ticket = (\<lambda>v n. filter (\<lambda>p. pos_ticket p = n) ps),
      orders_get_ticket = (\<lambda>v n. filter (\<lambda>p. ord_ticket p = n) os),
      order_send = (\<lambda>v r. (respond r, v)), now = (\<lambda>v. 0)\<rparr>"

definition xau_manager :: MT5Manager where
  "xau_manager = \<lparr>symbol = ''XAUUSD'', target_profit = 10, cfg_entry_strategy = None,
     cfg_central_zone = None, pending_orders = []\<rparr>"

definition fresh_world :: "unit world" where
  "fresh_world = \<lparr>venue = (), sent = []\<rparr>"

definition xau_tick :: tick where
  "xau_tick = \<lparr>bid = 1899, ask = 1900\<rparr>"

definition xau_info :: symbol_info where
  "xau_info = \<lparr>trade_tick_value = 1, trade_tick_size = 0.01, volume_min = 0.01\<rparr>"

definition accept_all :: "request \<Rightarrow> send_result option" where
  "accept_all r = Some \<lparr>retcode = TRADE_RETCODE_DONE, res_order = 77\<rparr>"

definition reject_all :: "request \<Rightarrow> send_result option" where
  "reject_all r = Some \<lparr>retcode = 10016, res_order = 0\<rparr>"

definition quiet_venue :: "unit mt5" where
  "quiet_venue = static_venue (Some xau_tick) (Some xau_info) [] [] accept_all"

definition xau_position :: position where
  "xau_position = \<lparr>pos_ticket = 5, pos_symbol = ''XAUUSD'', pos_tp = 1950\<rparr>"

definition xau_order :: order where
  "xau_order = \<lparr>ord_ticket = 6, ord_symbol = ''XAUUSD'', ord_price_open = 1900, ord_tp = 1960\<rparr>"

definition busy_venue :: "(request \<Rightarrow> send_result option) \<Rightarrow> unit mt5" where
  "busy_venue respond = static_venue (Some xau_tick) (Some xau_info) [xau_position] [xau_order] respond"

definition range_intent :: "string \<Rightarrow> TradeParams" where
  "range_intent tt = \<lparr>trade_type = tt, entry_price = None, entry_range = Some (1900, 1920),
     stop_loss = 1890, take_profit = None, raw_message = []\<rparr>"

definition single_intent :: "string \<Rightarrow> TradeParams" where
  "single_intent tt = \<lparr>trade_type = tt, entry_price = Some 1905, entry_range = None,
     stop_loss = 1890, take_profit = None, raw_message = []\<rparr>"

definition tracked :: "int \<Rightarrow> PendingOrder" where
  "tracked n = \<lparr>po_ticket = n, po_symbol = ''XAUUSD'', po_trade_type = ''buy'',
     po_entry_price = 1900, po_stop_loss = 1890, po_take_profit = 1910, po_volume = 0.01,
     po_timestamp = 0, is_activated = False\<rparr>"

section \<open>Extraction never raises\<close>

lemma py_float_digits:
  assumes "list_all is_digit d1" "d1 \<noteq> []" "list_all is_digit d2"
  shows "py_float (d1 @ d2) \<noteq> None" and "py_float (d1 @ CHR ''.'' # d2) \<noteq> None"
proof -
  from assms have a: "takeWhile is_digit (d1 @ d2) = d1 @ d2" "dropWhile is_digit (d1 @ d2) = []"
    by (simp_all add: list_all_iff)
  then show "py_float (d1 @ d2) \<noteq> None"
    using assms(2) by (simp add: py_float_def)
  have nd: "\<not> is_digit CHR ''.''" by (simp add: is_digit_def)
  from assms(1) nd have b: "takeWhile is_digit (d1 @ CHR ''.'' # d2) = d1"
    "dropWhile is_digit (d1 @ CHR ''.'' # d2) = CHR ''.'' # d2"
    by (simp_all add: list_all_iff takeWhile_append2 dropWhile_append2)
  then show "py_float (d1 @ CHR ''.'' # d2) \<noteq> None"
    using assms(2,3) by (simp add: py_float_def)
qed

lemma ms_Rep_consumes:
  assumes "s' \<in> set (ms (Rep c k) s)"
  shows "\<exists>u. post s = u @ post s' \<and> list_all (in_class c) u \<and> k \<le> length u \<and> grps s' = grps s"
proof -
  from assms obtain j where j: "j \<le> length (takeWhile (in_class c) (post s))" "k \<le> j"
    and s': "s' = advance j s"
    by (auto simp: Let_def less_Suc_eq_le simp del: upt_Suc)
  have "take j (post s) = take j (takeWhile (in_class c) (post s))"
    using j(1) by (metis takeWhile_dropWhile_id take_append diff_is_0_eq' take_0 append_Nil2)
  then have "list_all (in_class c) (take j (post s))"
    by (metis list_all_iff set_takeWhileD in_set_takeD)
  moreover have "length (take j (post s)) = j"
    using j(1) length_takeWhile_le [of "in_class c" "post s"] by simp
  ultimately show ?thesis
    using s' j(2) by (intro exI [of _ "take j (post s)"]) (simp add: advance_def)
qed

lemma lower_char_dot:
  assumes "lower_char c = CHR ''.''"
  shows "c = CHR ''.''"
proof (cases "65 \<le> (of_char c :: int) \<and> (of_char c :: int) \<le> 90")
  case True
  with assms have "char_of ((of_char c :: int) + 32) = CHR ''.''"
    by (simp add: lower_char_def Let_def)
  then have "(of_char (char_of ((of_char c :: int) + 32) :: char) :: int) = of_char CHR ''.''"
    by simp
  then have "((of_char c :: int) + 32) mod 256 = 46"
    by (simp only: of_char_of) simp
  with True show ?thesis by presburger
next
  case False
  with assms show ?thesis
    by (auto simp: lower_char_def Let_def)
qed

lemma ms_Lit_dot_consumes:
  assumes "s' \<in> set (ms (Lit ''.'') s)"
  shows "post s = CHR ''.'' # post s' \<and> grps s' = grps s"
proof -
  from assms have len: "1 \<le> length (post s)" and low: "lower (take 1 (post s)) = lower ''.''"
    and s': "s' = advance 1 s"
    by (auto split: if_splits)
  from len obtain c cs where cs: "post s = c # cs" by (cases "post s") auto
  with low have "lower_char c = lower_char CHR ''.''" by (simp add: lower_def)
  also have "lower_char CHR ''.'' = CHR ''.''" by (simp add: lower_char_def)
  finally have "c = CHR ''.''" by (rule lower_char_dot)
  with cs s' show ?thesis by (simp add: advance_def)
qed

lemma consumed_append: "post s = u @ post s' \<Longrightarrow> take (length (post s) - length (post s')) (post s) = u"
  by simp

lemma ms_numbody:
  assumes "s' \<in> set (ms numbody s)"
  shows "py_float (take (length (post s) - length (post s')) (post s)) \<noteq> None \<and> grps s' = grps s"
proof -
  from assms obtain s1 s2 where
    1: "s1 \<in> set (ms (Rep Digit 1) s)" and
    2: "s2 \<in> set (ms (Opt (Lit ''.'')) s1)" and
    3: "s' \<in> set (ms (Rep Digit 0) s2)"
    by (auto simp: numbody_def)
  from ms_Rep_consumes [OF 1] obtain d1 where
    d1: "post s = d1 @ post s1" "list_all is_digit d1" "1 \<le> length d1" "grps s1 = grps s"
    by (auto simp: list_all_iff)
  from ms_Rep_consumes [OF 3] obtain d2 where
    d2: "post s2 = d2 @ post s'" "list_all is_digit d2" "grps s' = grps s2"
    by (auto simp: list_all_iff)
  from d1(3) have ne: "d1 \<noteq> []" by auto
  from 2 consider "s2 = s1" | "s2 \<in> set (ms (Lit ''.'') s1)" by auto
  then show ?thesis
  proof cases
    case 1
    with d1 d2 have "post s = (d1 @ d2) @ post s'" by simp
    from consumed_append [OF this] py_float_digits(1) [OF d1(2) ne d2(2)] 1 d1 d2
    show ?thesis by simp
  next
    case 2
    from ms_Lit_dot_consumes [OF this] d1 d2
    have "post s = (d1 @ CHR ''.'' # d2) @ post s'" and g: "grps s2 = grps s1" by simp_all
    from consumed_append [OF this(1)] py_float_digits(2) [OF d1(2) ne d2(2)] g d1 d2
    show ?thesis by simp
  qed
qed

lemma good_advance: "good (advance j s) = good s"
  by (simp add: good_def advance_def)

lemma ms_good: "numgrps r \<Longrightarrow> good s \<Longrightarrow> s' \<in> set (ms r s) \<Longrightarrow> good s'"
proof (induction r arbitrary: s s')
  case (Lit w)
  then show ?case by (auto split: if_splits simp: good_advance)
next
  case (Rep c k)
  then show ?case by (auto simp: Let_def good_advance)
next
  case (Opt r)
  from Opt.prems(3) have "s' \<in> set (ms r s) \<or> s' = s" by auto
  with Opt.IH [of s s'] Opt.prems show ?case by auto
next
  case (Alt a b)
  from Alt.prems(3) have "s' \<in> set (ms a s) \<or> s' \<in> set (ms b s)" by auto
  with Alt.IH(1) [of s s'] Alt.IH(2) [of s s'] Alt.prems show ?case by auto
next
  case (Seq a b)
  from Seq.prems(3) obtain s1 where s1: "s1 \<in> set (ms a s)" "s' \<in> set (ms b s1)" by auto
  from Seq.prems(1) have n: "numgrps a" "numgrps b" by simp_all
  from Seq.IH(1) [OF n(1) Seq.prems(2) s1(1)] have "good s1" .
  from Seq.IH(2) [OF n(2) this s1(2)] show ?case .
next
  case (Grp n r)
  then obtain s1 where s1: "s1 \<in> set (ms numbody s)"
    and s': "s' = s1\<lparr>grps := (n, take (length (post s) - length (post s1)) (post s)) # grps s1\<rparr>"
    by auto
  from ms_numbody [OF s1] Grp.prems(2) s' show ?case
    by (simp add: good_def)
next
  case Bnd
  then show ?case by (auto split: if_splits)
qed

lemma ms_keeps:
  "map_of (grps s) n \<noteq> None \<Longrightarrow> s' \<in> set (ms r s) \<Longrightarrow> map_of (grps s') n \<noteq> None"
proof (induction r arbitrary: s s')
  case (Lit w)
  then show ?case by (auto split: if_splits simp: advance_def)
next
  case (Rep c k)
  then show ?case by (auto simp: Let_def advance_def)
next
  case (Opt r)
  from Opt.prems(2) have "s' \<in> set (ms r s) \<or> s' = s" by auto
  with Opt.IH [of s s'] Opt.prems(1) show ?case by auto
next
  case (Alt a b)
  from Alt.prems(2) have "s' \<in> set (ms a s) \<or> s' \<in> set (ms b s)" by auto
  with Alt.IH(1) [of s s'] Alt.IH(2) [of s s'] Alt.prems(1) show ?case by auto
next
  case (Seq a b)
  from Seq.prems(2) obtain s1 where s1: "s1 \<in> set (ms a s)" "s' \<in> set (ms b s1)" by auto
  from Seq.IH(1) [OF Seq.prems(1) s1(1)] have "map_of (grps s1) n \<noteq> None" .
  from Seq.IH(2) [OF this s1(2)] show ?case .
next
  case (Grp k r)
  from Grp.prems(2) obtain s1 where s1: "s1 \<in> set (ms r s)"
    and s': "s' = s1\<lparr>grps := (k, take (length (post s) - length (post s1)) (post s)) # grps s1\<rparr>"
    by auto
  from Grp.IH [OF Grp.prems(1) s1] s' show ?case by simp
next
  case Bnd
  then show ?case by (auto split: if_splits)
qed

lemma ms_sets: "sets_grp n r \<Longrightarrow> s' \<in> set (ms r s) \<Longrightarrow> map_of (grps s') n \<noteq> None"
proof (induction r arbitrary: s s')
  case (Alt a b)
  from Alt.prems(2) have "s' \<in> set (ms a s) \<or> s' \<in> set (ms b s)" by auto
  with Alt.IH(1) [of s' s] Alt.IH(2) [of s' s] Alt.prems(1) show ?case by auto
next
  case (Seq a b)
  from Seq.prems(2) obtain s1 where s1: "s1 \<in> set (ms a s)" "s' \<in> set (ms b s1)" by auto
  from Seq.prems(1) consider "sets_grp n a" | "sets_grp n b" by auto
  then show ?case
  proof cases
    case 1
    from Seq.IH(1) [OF 1 s1(1)] have "map_of (grps s1) n \<noteq> None" .
    from ms_keeps [OF this s1(2)] show ?thesis .
  next
    case 2
    from Seq.IH(2) [OF 2 s1(2)] show ?thesis .
  qed
next
  case (Grp k r)
  from Grp.prems(2) obtain s1 where s1: "s1 \<in> set (ms r s)"
    and s': "s' = s1\<lparr>grps := (k, take (length (post s) - length (post s1)) (post s)) # grps s1\<rparr>"
    by auto
  show ?case
  proof (cases "k = n")
    case True
    with s' show ?thesis by simp
  next
    case False
    with Grp.prems(1) have "sets_grp n r" by simp
    from Grp.IH [OF this s1] s' show ?thesis by simp
  qed
qed simp_all

lemma search_from_ms:
  "search_from r pre m = Some s' \<Longrightarrow> \<exists>s. grps s = [] \<and> s' \<in> set (ms r s)"
proof (induction r pre m rule: search_from.induct)
  case (1 r pre)
  then have "s' \<in> set (ms r \<lparr>rpre = pre, post = [], grps = []\<rparr>)"
    by (cases "ms r \<lparr>rpre = pre, post = [], grps = []\<rparr>") simp_all
  then show ?case
    by (intro exI [of _ "\<lparr>rpre = pre, post = [], grps = []\<rparr>"]) simp
next
  case (2 r pre c cs)
  show ?case
  proof (cases "ms r \<lparr>rpre = pre, post = c # cs, grps = []\<rparr>")
    case Nil
    with 2 show ?thesis by simp
  next
    case (Cons a list)
    with 2(2) have "s' \<in> set (ms r \<lparr>rpre = pre, post = c # cs, grps = []\<rparr>)" by simp
    then show ?thesis
      by (intro exI [of _ "\<lparr>rpre = pre, post = c # cs, grps = []\<rparr>"]) simp
  qed
qed

lemma search_group_float:
  assumes "numgrps r" "sets_grp n r" "search r m = Some s'"
  shows "\<exists>g x. group s' n = Some g \<and> py_float g = Some x"
proof -
  from search_from_ms assms(3) obtain s where s: "grps s = []" "s' \<in> set (ms r s)"
    unfolding search_def by blast
  from s(1) have "good s" by (simp add: good_def)
  from ms_good [OF assms(1) this s(2)] have g: "good s'" .
  from ms_sets [OF assms(2) s(2)] obtain g0 where g0: "map_of (grps s') n = Some g0" by auto
  then have "(n, g0) \<in> set (grps s')" by (rule map_of_SomeD)
  with g have "py_float g0 \<noteq> None" by (auto simp: good_def list_all_iff)
  then obtain x where "py_float g0 = Some x" by auto
  with g0 show ?thesis by (simp add: group_def)
qed

lemma float_patterns:
  "list_all float_pattern SL_UPDATE_PATTERNS" "list_all float_pattern SL_PATTERNS"
  "list_all float_pattern TP_PATTERNS" "list_all float_pattern ENTRY_PATTERNS"
  "list_all range_pattern RANGE_PATTERNS"
  by (simp_all add: float_pattern_def range_pattern_def SL_UPDATE_PATTERNS_def SL_PATTERNS_def
        TP_PATTERNS_def ENTRY_PATTERNS_def RANGE_PATTERNS_def NUM_def ws0_def ws1_def)

lemma float_loop_total: "list_all float_pattern ps \<Longrightarrow> \<exists>r. float_loop ps m = Inr r"
proof (induction ps m rule: float_loop.induct)
  case (1 message)
  then show ?case by simp
next
  case (2 p ps message)
  show ?case
  proof (cases "search p message")
    case None
    with 2 show ?thesis by simp
  next
    case (Some s')
    from 2(3) have "numgrps p" "sets_grp 1 p" by (simp_all add: float_pattern_def)
    from search_group_float [OF this Some] obtain g x where
      "group s' 1 = Some g" "py_float g = Some x" by blast
    with Some show ?thesis by simp
  qed
qed

lemma range_loop_total: "list_all range_pattern ps \<Longrightarrow> \<exists>r. range_loop ps m = Inr r"
proof (induction ps m rule: range_loop.induct)
  case (1 message)
  then show ?case by simp
next
  case (2 p ps message)
  show ?case
  proof (cases "search p message")
    case None
    with 2 show ?thesis by simp
  next
    case (Some s')
    from 2(4) have p: "numgrps p" "sets_grp 1 p" "sets_grp 2 p" by (simp_all add: range_pattern_def)
    from search_group_float [OF p(1) p(2) Some] obtain g1 x1 where
      "group s' 1 = Some g1" "py_float g1 = Some x1" by blast
    moreover from search_group_float [OF p(1) p(3) Some] obtain g2 x2 where
      "group s' 2 = Some g2" "py_float g2 = Some x2" by blast
    ultimately show ?thesis using Some by simp
  qed
qed

lemma is_sl_update_message_total: "\<exists>r. is_sl_update_message m = Inr r"
  unfolding is_sl_update_message_def by (rule float_loop_total) (rule float_patterns)

lemma extract_parameters_total: "\<exists>r. extract_parameters m = Inr r"
proof -
  obtain a where a: "range_loop RANGE_PATTERNS m = Inr a"
    using range_loop_total [OF float_patterns(5)] by blast
  obtain b where b: "float_loop ENTRY_PATTERNS m = Inr b"
    using float_loop_total [OF float_patterns(4)] by blast
  obtain c where c: "float_loop SL_PATTERNS m = Inr c"
    using float_loop_total [OF float_patterns(2)] by blast
  obtain d where d: "float_loop TP_PATTERNS m = Inr d"
    using float_loop_total [OF float_patterns(3)] by blast
  from a b have "\<exists>e. extract_entry_price m = Inr e"
    by (auto simp: extract_entry_price_def split: option.splits)
  with c d show ?thesis
    by (auto simp: extract_parameters_def extract_stop_loss_def extract_take_profit_def
          split: option.splits entry_data.splits)
qed

section \<open>Properties of the pricing strategy\<close>

lemma strip_lower_min: "lower (strip ''min'') = ''min''"
  by code_simp

lemma strip_lower_max: "lower (strip ''max'') = ''max''"
  by code_simp

lemma strip_lower_median: "lower (strip ''median'') = ''median''"
  by code_simp

text \<open>
  C4. \<open>get_pending_price\<close> returns the single price of an intent unchanged, whatever the
  strategy and the offset. For a range \<open>(low, high)\<close> and offset zero, the strategies
  \<open>auto\<close> and \<open>min\<close> give \<open>low\<close> to a buy and \<open>high\<close> to a sell, \<open>max\<close> gives \<open>high\<close> to a
  buy and \<open>low\<close> to a sell, and a strategy that is neither \<open>min\<close> nor \<open>max\<close> (after
  stripping and lower-casing) gives what \<open>auto\<close> gives, for every offset.
\<close>

theorem get_pending_price_strategies:
  "(entry_range t = None \<longrightarrow> get_pending_price t s c = entry_price t) \<and>
   (entry_range t = Some (low, high) \<longrightarrow>
      (s = ''auto'' \<or> s = ''min'' \<longrightarrow>
         get_pending_price t s 0 = Some (if trade_type t = ''buy'' then low else high)) \<and>
      (s = ''max'' \<longrightarrow>
         get_pending_price t s 0 = Some (if trade_type t = ''buy'' then high else low)) \<and>
      (lower (strip s) \<noteq> ''min'' \<and> lower (strip s) \<noteq> ''max'' \<longrightarrow>
         get_pending_price t s c = get_pending_price t ''auto'' c))"
  by (auto simp: get_pending_price_def strip_lower_min strip_lower_max Let_def)

theorem get_pending_price_strategies_witness:
  "get_pending_price (single_intent ''buy'') ''max'' 5 = Some 1905 \<and>
   get_pending_price (range_intent ''buy'') ''auto'' 0 = Some 1900 \<and>
   get_pending_price (range_intent ''buy'') ''min'' 0 = Some 1900 \<and>
   get_pending_price (range_intent ''buy'') ''max'' 0 = Some 1920 \<and>
   get_pending_price (range_intent ''sell'') ''auto'' 0 = Some 1920 \<and>
   get_pending_price (range_intent ''sell'') ''min'' 0 = Some 1920 \<and>
   get_pending_price (range_intent ''sell'') ''max'' 0 = Some 1900 \<and>
   get_pending_price (range_intent ''sell'') ''median'' 5 =
     get_pending_price (range_intent ''sell'') ''auto'' 5"
proof -
  have single: "entry_range (single_intent ''buy'') = None"
    by (simp add: single_intent_def)
  have range: "entry_range (range_intent tt) = Some (1900, 1920)" for tt
    by (simp add: range_intent_def)
  have tt: "trade_type (range_intent tt) = tt" for tt
    by (simp add: range_intent_def)
  show ?thesis
    using get_pending_price_strategies [where t = "single_intent ''buy''" and s = "''max''" and c = 5] single
      get_pending_price_strategies [where t = "range_intent ''buy''" and low = 1900 and high = 1920 and s = "''auto''" and c = 0]
      get_pending_price_strategies [where t = "range_intent ''buy''" and low = 1900 and high = 1920 and s = "''min''" and c = 0]
      get_pending_price_strategies [where t = "range_intent ''buy''" and low = 1900 and high = 1920 and s = "''max''" and c = 0]
      get_pending_price_strategies [where t = "range_intent ''sell''" and low = 1900 and high = 1920 and s = "''auto''" and c = 0]
      get_pending_price_strategies [where t = "range_intent ''sell''" and low = 1900 and high = 1920 and s = "''min''" and c = 0]
      get_pending_price_strategies [where t = "range_intent ''sell''" and low = 1900 and high = 1920 and s = "''max''" and c = 0]
      get_pending_price_strategies [where t = "range_intent ''sell''" and low = 1900 and high = 1920 and s = "''median''" and c = 5]
      range tt strip_lower_median
    by (simp add: single_intent_def)
qed

text \<open>
  C5. For a range intent and any strategy, the price resolved with offset \<open>c\<close> is the
  price resolved with offset zero plus \<open>c\<close> for a buy and minus \<open>c\<close> for a sell (so a zero
  offset changes nothing, and an offset of 5 moves the price by exactly 5).
\<close>

theorem central_zone_offset:
  assumes "entry_range t = Some r"
  shows "get_pending_price t s c =
           map_option (\<lambda>p. if trade_type t = ''buy'' then p + c else p - c)
             (get_pending_price t s 0) \<and>
         get_pending_price t s 5 =
           map_option (\<lambda>p. if trade_type t = ''buy'' then p + 5 else p - 5)
             (get_pending_price t s 0)"
  using assms by (cases r) (simp add: get_pending_price_def Let_def)

theorem central_zone_offset_witness:
  "entry_range (range_intent ''buy'') = Some (1900, 1920) \<and>
   get_pending_price (range_intent ''buy'') ''max'' 0 = Some 1920 \<and>
   get_pending_price (range_intent ''buy'') ''max'' 5 = Some 1925 \<and>
   entry_range (range_intent ''sell'') = Some (1900, 1920) \<and>
   get_pending_price (range_intent ''sell'') ''max'' 0 = Some 1900 \<and>
   get_pending_price (range_intent ''sell'') ''max'' 5 = Some 1895"
proof -
  have range: "entry_range (range_intent tt) = Some (1900, 1920)" for tt
    by (simp add: range_intent_def)
  have zero: "get_pending_price (range_intent ''buy'') ''max'' 0 = Some 1920"
    "get_pending_price (range_intent ''sell'') ''max'' 0 = Some 1900"
    by (simp_all add: get_pending_price_def range_intent_def strip_lower_max)
  have tt: "trade_type (range_intent tt) = tt" for tt
    by (simp add: range_intent_def)
  show ?thesis
    using central_zone_offset [OF range, of "''buy''" "''max''" 5]
      central_zone_offset [OF range, of "''sell''" "''max''" 5] range zero tt
    by simp
qed

section \<open>Properties of the message processor\<close>

lemma digits_val_nonneg_aux:
  "0 \<le> a \<Longrightarrow> list_all is_digit s \<Longrightarrow>
   0 \<le> foldl (\<lambda>a c. 10 * a + (of_char c - 48)) (a::int) s"
proof (induction s arbitrary: a)
  case Nil
  then show ?case by simp
next
  case (Cons c s)
  from Cons.prems have "0 \<le> 10 * a + (of_char c - 48)"
    by (simp add: is_digit_def Let_def)
  moreover from Cons.prems have "list_all is_digit s" by simp
  ultimately show ?case using Cons.IH by simp
qed

lemma digits_val_nonneg: "list_all is_digit s \<Longrightarrow> 0 \<le> digits_val s"
  unfolding digits_val_def by (rule digits_val_nonneg_aux) simp_all

lemma takeWhile_all: "list_all P (takeWhile P s)"
  by (induction s) auto

lemma py_float_nonneg: "py_float s = Some x \<Longrightarrow> 0 \<le> x"
  by (auto simp: py_float_def Let_def digits_val_nonneg takeWhile_all split: if_splits)

lemma float_loop_nonneg: "float_loop ps m = Inr (Some x) \<Longrightarrow> 0 \<le> x"
  by (induction ps m rule: float_loop.induct) (auto split: option.splits dest: py_float_nonneg)

lemma range_loop_ordered:
  "range_loop ps m = Inr (Some d) \<Longrightarrow> \<exists>lo hi. d = Range lo hi \<and> lo \<le> hi"
  by (induction ps m rule: range_loop.induct) (auto split: option.splits)

lemma extract_entry_price_ordered:
  "extract_entry_price m = Inr (Some (Range lo hi)) \<Longrightarrow> lo \<le> hi"
  by (auto simp: extract_entry_price_def split: sum.splits option.splits dest: range_loop_ordered)

lemma gold_extract:
  "extract_parameters ''GOLD BUY @1900-1920 SL 1890 TP 1950'' =
     Inr (Some \<lparr>trade_type = ''buy'', entry_price = None, entry_range = Some (1900, 1920),
                stop_loss = 1890, take_profit = Some 950,
                raw_message = ''GOLD BUY @1900-1920 SL 1890 TP 1950''\<rparr>)"
  by code_simp

lemma gold_no_sl_update: "is_sl_update_message ''GOLD BUY @1900-1920 SL 1890 TP 1950'' = Inr None"
  by code_simp

text \<open>
  C9. Every trade intent that \<open>extract_parameters\<close> returns, for any message, has exactly
  one of \<open>entry_price\<close> and \<open>entry_range\<close> set, a stop loss strictly greater than zero,
  and, when a range is set, a lower bound that is at most the upper bound.
\<close>

theorem extract_parameters_invariant:
  assumes "extract_parameters message = Inr (Some t)"
  shows "(entry_price t = None) \<noteq> (entry_range t = None) \<and> 0 < stop_loss t \<and>
         (case entry_range t of None \<Rightarrow> True | Some (low, high) \<Rightarrow> low \<le> high)"
proof -
  from assms obtain tt d stop tp where
    e: "extract_entry_price message = Inr (Some d)" and
    s: "extract_stop_loss message = Inr (Some stop)" and
    nz: "stop \<noteq> 0" and
    t: "t = (case d of
         Range lo hi \<Rightarrow> \<lparr>trade_type = tt, entry_price = None, entry_range = Some (lo, hi),
            stop_loss = stop, take_profit = tp, raw_message = message\<rparr>
       | Single p \<Rightarrow> \<lparr>trade_type = tt, entry_price = Some p, entry_range = None,
            stop_loss = stop, take_profit = tp, raw_message = message\<rparr>)"
    by (auto simp: extract_parameters_def
          split: if_splits option.splits sum.splits entry_data.splits)
  from s have "0 \<le> stop"
    unfolding extract_stop_loss_def by (rule float_loop_nonneg)
  with nz have pos: "0 < stop" by simp
  show ?thesis
  proof (cases d)
    case (Range lo hi)
    with e have "lo \<le> hi" by (simp add: extract_entry_price_ordered)
    with Range t pos show ?thesis by simp
  next
    case (Single p)
    with t pos show ?thesis by simp
  qed
qed

theorem extract_parameters_invariant_witness:
  "extract_parameters ''GOLD BUY @1900-1920 SL 1890 TP 1950'' =
     Inr (Some \<lparr>trade_type = ''buy'', entry_price = None, entry_range = Some (1900, 1920),
                stop_loss = 1890, take_profit = Some 950,
                raw_message = ''GOLD BUY @1900-1920 SL 1890 TP 1950''\<rparr>) \<and>
   (0::real) < 1890 \<and> (1900::real) \<le> 1920"
  using extract_parameters_invariant [OF gold_extract] gold_extract by simp

lemma both_sides_long: "search (snd (TRADE_TYPE_PATTERNS ! 0)) ''buy or sell @1900-1920 sl 1890'' \<noteq> None"
  by code_simp

lemma both_sides_short: "search (snd (TRADE_TYPE_PATTERNS ! 1)) ''buy or sell @1900-1920 sl 1890'' \<noteq> None"
  by code_simp

lemma both_sides_extract:
  "extract_parameters ''buy or sell @1900-1920 sl 1890'' =
     Inr (Some \<lparr>trade_type = ''buy'', entry_price = None, entry_range = Some (1900, 1920),
                stop_loss = 1890, take_profit = None,
                raw_message = ''buy or sell @1900-1920 sl 1890''\<rparr>)"
  by code_simp

lemma long_pattern_empty: "search (snd (TRADE_TYPE_PATTERNS ! 0)) [] = None"
  by code_simp

lemma both_now_long:
  "search (snd (TRADE_TYPE_PATTERNS ! 0)) ''buy gold now or sell @1900-1920 sl 1890'' \<noteq> None"
  by code_simp

lemma both_now_short:
  "search (snd (TRADE_TYPE_PATTERNS ! 1)) ''buy gold now or sell @1900-1920 sl 1890'' \<noteq> None"
  by code_simp

lemma both_now_entry:
  "extract_entry_price ''buy gold now or sell @1900-1920 sl 1890'' =
     Inr (Some (Range 1900 1920))"
  by code_simp

lemma both_now_stop:
  "extract_stop_loss ''buy gold now or sell @1900-1920 sl 1890'' = Inr (Some 1890)"
  by code_simp

lemma both_now_extract:
  "extract_parameters ''buy gold now or sell @1900-1920 sl 1890'' = Inr None"
  by code_simp

lemma both_now_immediate:
  "is_immediate_execution_message ''buy gold now or sell @1900-1920 sl 1890''"
  by code_simp

lemma both_zero_facts:
  "search (snd (TRADE_TYPE_PATTERNS ! 0)) ''buy or sell @1900-1920 sl 0'' \<noteq> None"
  "search (snd (TRADE_TYPE_PATTERNS ! 1)) ''buy or sell @1900-1920 sl 0'' \<noteq> None"
  "extract_entry_price ''buy or sell @1900-1920 sl 0'' = Inr (Some (Range 1900 1920))"
  "extract_stop_loss ''buy or sell @1900-1920 sl 0'' = Inr (Some 0)"
  "extract_parameters ''buy or sell @1900-1920 sl 0'' = Inr None"
  by code_simp+

text \<open>
  C10, as stated, fails: a message with both vocabularies, an entry and a stop loss
  produces no intent at all when it matches an immediate-execution idiom, which
  \<open>extract_parameters\<close> tests before it detects the side; nor when its stop loss is
  zero, which \<open>not stop_loss\<close> takes for a missing stop loss.
\<close>

theorem both_sides_immediate_counterexample:
  "search (snd (TRADE_TYPE_PATTERNS ! 0)) ''buy gold now or sell @1900-1920 sl 1890'' \<noteq> None \<and>
   search (snd (TRADE_TYPE_PATTERNS ! 1)) ''buy gold now or sell @1900-1920 sl 1890'' \<noteq> None \<and>
   detect_trade_type ''buy gold now or sell @1900-1920 sl 1890'' = Some ''buy'' \<and>
   extract_entry_price ''buy gold now or sell @1900-1920 sl 1890'' =
     Inr (Some (Range 1900 1920)) \<and>
   extract_stop_loss ''buy gold now or sell @1900-1920 sl 1890'' = Inr (Some 1890) \<and>
   extract_parameters ''buy gold now or sell @1900-1920 sl 1890'' = Inr None \<and>
   search (snd (TRADE_TYPE_PATTERNS ! 0)) ''buy or sell @1900-1920 sl 0'' \<noteq> None \<and>
   search (snd (TRADE_TYPE_PATTERNS ! 1)) ''buy or sell @1900-1920 sl 0'' \<noteq> None \<and>
   extract_entry_price ''buy or sell @1900-1920 sl 0'' = Inr (Some (Range 1900 1920)) \<and>
   extract_stop_loss ''buy or sell @1900-1920 sl 0'' = Inr (Some 0) \<and>
   extract_parameters ''buy or sell @1900-1920 sl 0'' = Inr None"
  using both_now_long both_now_short both_now_entry both_now_stop both_now_extract
    both_zero_facts
  by (simp add: detect_trade_type_def TRADE_TYPE_PATTERNS_def)

text \<open>
  C10, amended. When a message has a whole-word match of the long vocabulary and one of
  the short vocabulary, \<open>_detect_trade_type\<close> returns \<open>buy\<close>: the long pattern is tried
  first. Every intent extracted from such a message is a buy, never a sell. A buy intent
  is extracted when the message has an entry and a nonzero stop loss and matches no
  immediate-execution idiom; when it matches one, no intent is extracted.
\<close>

theorem long_vocabulary_wins:
  assumes "search (snd (TRADE_TYPE_PATTERNS ! 0)) message \<noteq> None"
    and "search (snd (TRADE_TYPE_PATTERNS ! 1)) message \<noteq> None"
  shows "detect_trade_type message = Some ''buy'' \<and>
         (\<forall>t. extract_parameters message = Inr (Some t) \<longrightarrow> trade_type t = ''buy'') \<and>
         (\<not> is_immediate_execution_message message \<and>
          extract_entry_price message = Inr (Some d) \<and>
          extract_stop_loss message = Inr (Some sl) \<and> sl \<noteq> 0 \<longrightarrow>
            (\<exists>t. extract_parameters message = Inr (Some t) \<and> trade_type t = ''buy'')) \<and>
         (is_immediate_execution_message message \<longrightarrow> extract_parameters message = Inr None)"
proof -
  from assms(1) have d: "detect_trade_type message = Some ''buy''"
    by (simp add: detect_trade_type_def TRADE_TYPE_PATTERNS_def)
  from assms(1) long_pattern_empty have ne: "message \<noteq> []"
    by auto
  obtain tp where tp: "extract_take_profit message = Inr tp"
    unfolding extract_take_profit_def
    using float_loop_total [OF float_patterns(3)] by blast
  from d have "\<forall>t. extract_parameters message = Inr (Some t) \<longrightarrow> trade_type t = ''buy''"
    by (auto simp: extract_parameters_def
          split: if_splits option.splits sum.splits entry_data.splits)
  moreover from d ne tp have "\<not> is_immediate_execution_message message \<and>
          extract_entry_price message = Inr (Some d) \<and>
          extract_stop_loss message = Inr (Some sl) \<and> sl \<noteq> 0 \<longrightarrow>
            (\<exists>t. extract_parameters message = Inr (Some t) \<and> trade_type t = ''buy'')"
    by (cases d) (simp_all add: extract_parameters_def)
  moreover have "is_immediate_execution_message message \<longrightarrow> extract_parameters message = Inr None"
    by (simp add: extract_parameters_def)
  ultimately show ?thesis using d by blast
qed

theorem long_vocabulary_wins_witness:
  "search (snd (TRADE_TYPE_PATTERNS ! 0)) ''buy or sell @1900-1920 sl 1890'' \<noteq> None \<and>
   search (snd (TRADE_TYPE_PATTERNS ! 1)) ''buy or sell @1900-1920 sl 1890'' \<noteq> None \<and>
   detect_trade_type ''buy or sell @1900-1920 sl 1890'' = Some ''buy'' \<and>
   map_sum id (map_option trade_type) (extract_parameters ''buy or sell @1900-1920 sl 1890'') =
     Inr (Some ''buy'') \<and>
   is_immediate_execution_message ''buy gold now or sell @1900-1920 sl 1890'' \<and>
   detect_trade_type ''buy gold now or sell @1900-1920 sl 1890'' = Some ''buy'' \<and>
   extract_parameters ''buy gold now or sell @1900-1920 sl 1890'' = Inr None"
  using long_vocabulary_wins [OF both_sides_long both_sides_short, of "Range 1900 1920" 1890]
    long_vocabulary_wins [OF both_now_long both_now_short, of "Range 1900 1920" 1890]
    both_sides_long both_sides_short both_sides_extract both_now_immediate
  by simp

section \<open>Properties of the order manager\<close>

lemma send_sent: "send api w r = (res, w') \<Longrightarrow> sent w' = sent w @ [(r, res)]"
  by (auto simp: send_def split: prod.splits)

lemma sl_positions_loop_spec:
  "sl_positions_loop api new_sl ps (n, w) = (n', w') \<Longrightarrow>
   \<exists>new. sent w' = sent w @ new \<and>
     map fst new =
       map (\<lambda>pos. TRADE_ACTION_SLTP (pos_symbol pos) (pos_ticket pos) new_sl (pos_tp pos)) ps \<and>
     n' = n + length (filter (\<lambda>e. accepted (snd e)) new)"
proof (induction ps arbitrary: n w)
  case Nil
  then show ?case by simp
next
  case (Cons pos ps)
  let ?r = "TRADE_ACTION_SLTP (pos_symbol pos) (pos_ticket pos) new_sl (pos_tp pos)"
  obtain res w1 where s: "send api w ?r = (res, w1)"
    by (cases "send api w ?r")
  with Cons.prems
  have "sl_positions_loop api new_sl ps (if accepted res then n + 1 else n, w1) = (n', w')"
    by simp
  from Cons.IH [OF this] obtain new where
    n: "sent w' = sent w1 @ new"
       "map fst new =
          map (\<lambda>pos. TRADE_ACTION_SLTP (pos_symbol pos) (pos_ticket pos) new_sl (pos_tp pos)) ps"
       "n' = (if accepted res then n + 1 else n) + length (filter (\<lambda>e. accepted (snd e)) new)"
    by blast
  from send_sent [OF s] have "sent w1 = sent w @ [(?r, res)]" .
  with n show ?case
    by (intro exI [of _ "(?r, res) # new"]) simp
qed

lemma sl_orders_loop_spec:
  "sl_orders_loop api new_sl os (n, w) = (n', w') \<Longrightarrow>
   \<exists>new. sent w' = sent w @ new \<and>
     map fst new =
       map (\<lambda>ord. TRADE_ACTION_MODIFY (ord_ticket ord) (ord_symbol ord) (ord_price_open ord)
              new_sl (ord_tp ord)) os \<and>
     n' = n + length (filter (\<lambda>e. accepted (snd e)) new)"
proof (induction os arbitrary: n w)
  case Nil
  then show ?case by simp
next
  case (Cons ord os)
  let ?r = "TRADE_ACTION_MODIFY (ord_ticket ord) (ord_symbol ord) (ord_price_open ord)
              new_sl (ord_tp ord)"
  obtain res w1 where s: "send api w ?r = (res, w1)"
    by (cases "send api w ?r")
  with Cons.prems
  have "sl_orders_loop api new_sl os (if accepted res then n + 1 else n, w1) = (n', w')"
    by simp
  from Cons.IH [OF this] obtain new where
    n: "sent w' = sent w1 @ new"
       "map fst new =
          map (\<lambda>ord. TRADE_ACTION_MODIFY (ord_ticket ord) (ord_symbol ord) (ord_price_open ord)
                 new_sl (ord_tp ord)) os"
       "n' = (if accepted res then n + 1 else n) + length (filter (\<lambda>e. accepted (snd e)) new)"
    by blast
  from send_sent [OF s] have "sent w1 = sent w @ [(?r, res)]" .
  with n show ?case
    by (intro exI [of _ "(?r, res) # new"]) simp
qed

lemma filter_pos_iff: "(0 < length (filter P xs)) = list_ex P xs"
  by (induction xs) auto

text \<open>
  C3, as stated, fails: \<open>update_pending_order_sl\<close> counts the modifications that the venue
  accepted, so with one open position whose modification is rejected it returns failure
  although a ticket exists.
\<close>

theorem update_sl_rejected_counterexample:
  "positions_get_symbol (busy_venue reject_all) () (symbol xau_manager) = [xau_position] \<and>
   orders_get_symbol (busy_venue reject_all) () (symbol xau_manager) = [xau_order] \<and>
   fst (update_pending_order_sl (busy_venue reject_all) xau_manager fresh_world 1895) = False"
  by (simp add: update_pending_order_sl_def busy_venue_def static_venue_def fresh_world_def
        send_def accepted_def reject_all_def TRADE_RETCODE_DONE_def)

text \<open>
  C3, amended. \<open>update_pending_order_sl\<close> sends one \<open>TRADE_ACTION_SLTP\<close> request for
  every open position of the symbol and then one \<open>TRADE_ACTION_MODIFY\<close> request for
  every working order of the symbol, whatever the results of the earlier requests; it
  returns success exactly when the venue accepted at least one of these requests. With
  no position and no order nothing is sent and the result is failure.
\<close>

theorem update_sl_success_iff_accepted:
  assumes "update_pending_order_sl api mgr w new_sl = (ok, w')"
  shows "\<exists>w_a new_a new_b.
           w_a = snd (sl_positions_loop api new_sl
                        (positions_get_symbol api (venue w) (symbol mgr)) (0, w)) \<and>
           sent w_a = sent w @ new_a \<and> sent w' = sent w_a @ new_b \<and>
           map fst new_a =
             map (\<lambda>pos. TRADE_ACTION_SLTP (pos_symbol pos) (pos_ticket pos) new_sl (pos_tp pos))
               (positions_get_symbol api (venue w) (symbol mgr)) \<and>
           map fst new_b =
             map (\<lambda>ord. TRADE_ACTION_MODIFY (ord_ticket ord) (ord_symbol ord) (ord_price_open ord)
                    new_sl (ord_tp ord))
               (orders_get_symbol api (venue w_a) (symbol mgr)) \<and>
           ok = list_ex (\<lambda>e. accepted (snd e)) (new_a @ new_b)"
proof -
  let ?ps = "positions_get_symbol api (venue w) (symbol mgr)"
  obtain ca w_a where a: "sl_positions_loop api new_sl ?ps (0, w) = (ca, w_a)"
    by (cases "sl_positions_loop api new_sl ?ps (0, w)")
  let ?os = "orders_get_symbol api (venue w_a) (symbol mgr)"
  obtain cb w_b where b: "sl_orders_loop api new_sl ?os (ca, w_a) = (cb, w_b)"
    by (cases "sl_orders_loop api new_sl ?os (ca, w_a)")
  from assms a b have ok: "ok = (0 < cb)" and w': "w' = w_b"
    by (simp_all add: update_pending_order_sl_def)
  from sl_positions_loop_spec [OF a] obtain new_a where
    na: "sent w_a = sent w @ new_a"
        "map fst new_a =
           map (\<lambda>pos. TRADE_ACTION_SLTP (pos_symbol pos) (pos_ticket pos) new_sl (pos_tp pos)) ?ps"
        "ca = 0 + length (filter (\<lambda>e. accepted (snd e)) new_a)"
    by blast
  from sl_orders_loop_spec [OF b] obtain new_b where
    nb: "sent w_b = sent w_a @ new_b"
        "map fst new_b =
           map (\<lambda>ord. TRADE_ACTION_MODIFY (ord_ticket ord) (ord_symbol ord) (ord_price_open ord)
                  new_sl (ord_tp ord)) ?os"
        "cb = ca + length (filter (\<lambda>e. accepted (snd e)) new_b)"
    by blast
  from na(3) nb(3) have "cb = length (filter (\<lambda>e. accepted (snd e)) (new_a @ new_b))"
    by simp
  with ok have "ok = list_ex (\<lambda>e. accepted (snd e)) (new_a @ new_b)"
    by (simp only: filter_pos_iff)
  with a na nb w' show ?thesis
    by (intro exI [of _ w_a] exI [of _ new_a] exI [of _ new_b]) simp
qed

theorem update_sl_success_iff_accepted_witness:
  "update_pending_order_sl (busy_venue accept_all) xau_manager fresh_world 1895 =
     (True,
      \<lparr>venue = (),
       sent = [(TRADE_ACTION_SLTP ''XAUUSD'' 5 1895 1950, Some \<lparr>retcode = TRADE_RETCODE_DONE, res_order = 77\<rparr>),
               (TRADE_ACTION_MODIFY 6 ''XAUUSD'' 1900 1895 1960,
                Some \<lparr>retcode = TRADE_RETCODE_DONE, res_order = 77\<rparr>)]\<rparr>) \<and>
   update_pending_order_sl quiet_venue xau_manager fresh_world 1895 = (False, fresh_world)"
proof -
  have busy: "update_pending_order_sl (busy_venue accept_all) xau_manager fresh_world 1895 =
     (True,
      \<lparr>venue = (),
       sent = [(TRADE_ACTION_SLTP ''XAUUSD'' 5 1895 1950, Some \<lparr>retcode = TRADE_RETCODE_DONE, res_order = 77\<rparr>),
               (TRADE_ACTION_MODIFY 6 ''XAUUSD'' 1900 1895 1960,
                Some \<lparr>retcode = TRADE_RETCODE_DONE, res_order = 77\<rparr>)]\<rparr>)"
    by (simp add: update_pending_order_sl_def busy_venue_def static_venue_def fresh_world_def
          send_def accepted_def accept_all_def xau_manager_def xau_position_def xau_order_def)
  have quiet: "update_pending_order_sl quiet_venue xau_manager fresh_world 1895 =
     (False, fresh_world)"
    by (simp add: update_pending_order_sl_def quiet_venue_def static_venue_def)
  show ?thesis
    using update_sl_success_iff_accepted [OF busy] update_sl_success_iff_accepted [OF quiet]
      busy quiet
    by simp
qed

lemma place_pending_order_sends:
  assumes tick: "symbol_info_tick api (venue w) (symbol mgr) = Some tk"
    and tp: "calculate_tp_for_profit api (venue w) mgr price (trade_type t)
               (get_minimum_volume api (venue w) mgr) = Some tp"
    and nz: "tp \<noteq> 0"
  shows "map fst (sent (snd (snd (place_pending_order api mgr w t (Some price))))) =
           map fst (sent w) @
           [TRADE_ACTION_PENDING
              \<lparr>rq_symbol = symbol mgr, rq_volume = get_minimum_volume api (venue w) mgr,
               rq_type =
                 (if trade_type t = ''buy''
                  then (if price < ask tk then ORDER_TYPE_BUY_LIMIT else ORDER_TYPE_BUY_STOP)
                  else (if price > bid tk then ORDER_TYPE_SELL_LIMIT else ORDER_TYPE_SELL_STOP)),
               rq_price = price, rq_sl = stop_loss t, rq_tp = tp,
               rq_deviation = 20, rq_magic = 234007, rq_comment = ''XAU Bot v5.1 Pending'',
               rq_expiration = now api (venue w) + 4 * 3600\<rparr>]"
  using assms
  by (auto simp: place_pending_order_def get_current_price_def Let_def send_def
           split: prod.splits option.splits)

lemma calculate_tp_buy:
  assumes "symbol_info_of api v (symbol mgr) = Some si"
    and "trade_tick_value si \<noteq> 0" and "trade_tick_size si \<noteq> 0" and "volume \<noteq> 0"
  shows "calculate_tp_for_profit api v mgr entry ''buy'' volume =
           Some (entry + target_profit mgr * trade_tick_size si / (trade_tick_value si * volume))"
  using assms by (simp add: calculate_tp_for_profit_def)

lemma quiet_tick: "symbol_info_tick quiet_venue v s = Some xau_tick"
  by (simp add: quiet_venue_def static_venue_def)

lemma quiet_info: "symbol_info_of quiet_venue v s = Some xau_info"
  by (simp add: quiet_venue_def static_venue_def)

lemma quiet_tp:
  "calculate_tp_for_profit quiet_venue v xau_manager price ''buy''
     (get_minimum_volume quiet_venue v xau_manager) = Some (price + 10)"
  by (simp add: calculate_tp_for_profit_def get_minimum_volume_def quiet_info xau_info_def
        xau_manager_def)

lemma quiet_tp_sell:
  "calculate_tp_for_profit quiet_venue v xau_manager price ''sell''
     (get_minimum_volume quiet_venue v xau_manager) = Some (price - 10)"
  by (simp add: calculate_tp_for_profit_def get_minimum_volume_def quiet_info xau_info_def
        xau_manager_def)

text \<open>
  C6. When \<open>place_pending_order\<close> has a tick and a take profit, the request it sends has
  the resolved entry as price and, for a buy, type \<open>BUY_LIMIT\<close> when the entry is strictly
  below the ask and \<open>BUY_STOP\<close> when it is at or above the ask; for a sell, type
  \<open>SELL_LIMIT\<close> when the entry is strictly above the bid and \<open>SELL_STOP\<close> when it is at or
  below the bid.
\<close>

theorem pending_order_flavor:
  assumes "symbol_info_tick api (venue w) (symbol mgr) = Some tk"
    and "calculate_tp_for_profit api (venue w) mgr price (trade_type t)
               (get_minimum_volume api (venue w) mgr) = Some tp"
    and "tp \<noteq> 0"
  shows "\<exists>rq. map fst (sent (snd (snd (place_pending_order api mgr w t (Some price))))) =
                 map fst (sent w) @ [TRADE_ACTION_PENDING rq] \<and>
               rq_price rq = price \<and>
               rq_type rq =
                 (if trade_type t = ''buy''
                  then (if price < ask tk then ORDER_TYPE_BUY_LIMIT else ORDER_TYPE_BUY_STOP)
                  else (if price > bid tk then ORDER_TYPE_SELL_LIMIT else ORDER_TYPE_SELL_STOP))"
  using place_pending_order_sends [OF assms] by simp

theorem pending_order_flavor_witness:
  "ask xau_tick = 1900 \<and> bid xau_tick = 1899 \<and>
   (\<exists>rq. map fst (sent (snd (snd (place_pending_order quiet_venue xau_manager fresh_world
             (range_intent ''buy'') (Some 1895))))) = [TRADE_ACTION_PENDING rq] \<and>
         rq_price rq = 1895 \<and> rq_type rq = ORDER_TYPE_BUY_LIMIT) \<and>
   (\<exists>rq. map fst (sent (snd (snd (place_pending_order quiet_venue xau_manager fresh_world
             (range_intent ''buy'') (Some 1905))))) = [TRADE_ACTION_PENDING rq] \<and>
         rq_price rq = 1905 \<and> rq_type rq = ORDER_TYPE_BUY_STOP) \<and>
   (\<exists>rq. map fst (sent (snd (snd (place_pending_order quiet_venue xau_manager fresh_world
             (range_intent ''sell'') (Some 1905))))) = [TRADE_ACTION_PENDING rq] \<and>
         rq_price rq = 1905 \<and> rq_type rq = ORDER_TYPE_SELL_LIMIT) \<and>
   (\<exists>rq. map fst (sent (snd (snd (place_pending_order quiet_venue xau_manager fresh_world
             (range_intent ''sell'') (Some 1899))))) = [TRADE_ACTION_PENDING rq] \<and>
         rq_price rq = 1899 \<and> rq_type rq = ORDER_TYPE_SELL_STOP)"
proof -
  have tt: "trade_type (range_intent tt) = tt" for tt
    by (simp add: range_intent_def)
  have tpb: "calculate_tp_for_profit quiet_venue (venue fresh_world) xau_manager price
       (trade_type (range_intent ''buy''))
       (get_minimum_volume quiet_venue (venue fresh_world) xau_manager) = Some (price + 10)" for price
    by (simp add: tt quiet_tp)
  have tps: "calculate_tp_for_profit quiet_venue (venue fresh_world) xau_manager price
       (trade_type (range_intent ''sell''))
       (get_minimum_volume quiet_venue (venue fresh_world) xau_manager) = Some (price - 10)" for price
    by (simp add: tt quiet_tp_sell)
  have e: "sent fresh_world = []"
    by (simp add: fresh_world_def)
  show ?thesis
    using pending_order_flavor [OF quiet_tick tpb [of 1895]]
      pending_order_flavor [OF quiet_tick tpb [of 1905]]
      pending_order_flavor [OF quiet_tick tps [of 1905]]
      pending_order_flavor [OF quiet_tick tps [of 1899]]
    by (simp add: tt e xau_tick_def)
qed

lemma cleanup_loop_eq:
  "cleanup_loop api v reg acc =
     acc @ map (\<lambda>p. if positions_get_ticket api v (po_ticket p) \<noteq> []
                     then p\<lparr>is_activated := True\<rparr> else p)
       (filter (\<lambda>p. orders_get_ticket api v (po_ticket p) \<noteq> [] \<or>
                     positions_get_ticket api v (po_ticket p) \<noteq> []) reg)"
  by (induction reg arbitrary: acc) (auto simp: Let_def)

text \<open>
  C7. One sweep of \<open>cleanup_expired_orders\<close> keeps, in their order, exactly the tracked
  orders for whose ticket the venue reports a working order or a position, and drops the
  others. A kept order for which a position is reported has \<open>is_activated\<close> set; a kept
  order for which only a working order is reported is left as it was. Nothing else of
  the manager changes.
\<close>

theorem cleanup_sweep:
  "cleanup_expired_orders api v mgr =
     mgr\<lparr>pending_orders :=
       map (\<lambda>p. if positions_get_ticket api v (po_ticket p) \<noteq> []
                 then p\<lparr>is_activated := True\<rparr> else p)
         (filter (\<lambda>p. orders_get_ticket api v (po_ticket p) \<noteq> [] \<or>
                       positions_get_ticket api v (po_ticket p) \<noteq> [])
            (pending_orders mgr))\<rparr>"
  by (simp add: cleanup_expired_orders_def cleanup_loop_eq)

theorem cleanup_sweep_witness:
  "cleanup_expired_orders (busy_venue accept_all) ()
     (xau_manager\<lparr>pending_orders := [tracked 4, tracked 5, tracked 6]\<rparr>) =
   xau_manager\<lparr>pending_orders := [(tracked 5)\<lparr>is_activated := True\<rparr>, tracked 6]\<rparr>"
  using cleanup_sweep [of "busy_venue accept_all" "()"
      "xau_manager\<lparr>pending_orders := [tracked 4, tracked 5, tracked 6]\<rparr>"]
  by (simp add: busy_venue_def static_venue_def tracked_def xau_position_def xau_order_def)

section \<open>Properties of message processing\<close>

lemma immediate_extract_none:
  "is_immediate_execution_message message \<Longrightarrow> extract_parameters message = Inr None"
  by (simp add: extract_parameters_def)


lemma now_and_sl_immediate:
  "is_immediate_execution_message ''Gold buy now 1900, SL at 1890, TP 1910''"
  by code_simp

lemma now_and_sl_update:
  "is_sl_update_message ''Gold buy now 1900, SL at 1890, TP 1910'' = Inr (Some 1890)"
  by code_simp

text \<open>
  C1. A message that matches an immediate-execution idiom is to be ignored, whatever
  entry, stop-loss or SL-update tokens it holds; the source says so of these messages
  (\<open>a ignorar\<close>). The code does not do this: \<open>_process_message\<close> tests for an SL update
  before it calls \<open>extract_parameters\<close>, which holds the filter. The message below
  matches the idiom \<open>gold buy now\<close>, and processing it rewrites the stop loss of the open
  position and of the working order of the venue.
\<close>

theorem immediate_message_updates_sl:
  "is_immediate_execution_message ''Gold buy now 1900, SL at 1890, TP 1910'' \<and>
   extract_parameters ''Gold buy now 1900, SL at 1890, TP 1910'' = Inr None \<and>
   process_message (busy_venue accept_all) xau_manager fresh_world
     ''Gold buy now 1900, SL at 1890, TP 1910'' =
     (SlUpdate 1890 True, xau_manager,
      \<lparr>venue = (),
       sent = [(TRADE_ACTION_SLTP ''XAUUSD'' 5 1890 1950,
                Some \<lparr>retcode = TRADE_RETCODE_DONE, res_order = 77\<rparr>),
               (TRADE_ACTION_MODIFY 6 ''XAUUSD'' 1900 1890 1960,
                Some \<lparr>retcode = TRADE_RETCODE_DONE, res_order = 77\<rparr>)]\<rparr>)"
proof -
  have "update_pending_order_sl (busy_venue accept_all) xau_manager fresh_world 1890 =
     (True,
      \<lparr>venue = (),
       sent = [(TRADE_ACTION_SLTP ''XAUUSD'' 5 1890 1950,
                Some \<lparr>retcode = TRADE_RETCODE_DONE, res_order = 77\<rparr>),
               (TRADE_ACTION_MODIFY 6 ''XAUUSD'' 1900 1890 1960,
                Some \<lparr>retcode = TRADE_RETCODE_DONE, res_order = 77\<rparr>)]\<rparr>)"
    by (simp add: update_pending_order_sl_def busy_venue_def static_venue_def fresh_world_def
          send_def accepted_def accept_all_def xau_manager_def xau_position_def xau_order_def)
  then show ?thesis
    using now_and_sl_immediate immediate_extract_none [OF now_and_sl_immediate]
    by (simp add: process_message_def now_and_sl_update)
qed














text \<open>
  C8. The message \<open>GOLD BUY @1900-1920 SL 1890 TP 1950\<close> is extracted as a buy with range
  \<open>(1900, 1920)\<close> and stop loss 1890; under the policy \<open>auto\<close> with offset zero its entry
  resolves to 1900; and, when the venue gives a tick and the symbol information, the
  request sent has price 1900, stop loss 1890 and the take profit
  \<open>1900 + target_profit * tick_size / (tick_value * volume)\<close>, in which the take profit
  parsed from the message does not occur. (The parsed take profit is 950 and not 1950:
  the optional \<open>1\<close> of the first take-profit pattern consumes the leading digit.)
\<close>

theorem gold_signal_end_to_end:
  assumes policy: "config_entry_strategy mgr = ''auto''" "config_central_zone mgr = 0"
    and tick: "symbol_info_tick api (venue w) (symbol mgr) = Some tk"
    and info: "symbol_info_of api (venue w) (symbol mgr) = Some si"
    and nz: "trade_tick_value si \<noteq> 0" "trade_tick_size si \<noteq> 0" "volume_min si \<noteq> 0"
    and tp: "1900 + target_profit mgr * trade_tick_size si /
               (trade_tick_value si * volume_min si) \<noteq> 0"
  shows "extract_parameters ''GOLD BUY @1900-1920 SL 1890 TP 1950'' =
           Inr (Some \<lparr>trade_type = ''buy'', entry_price = None, entry_range = Some (1900, 1920),
                stop_loss = 1890, take_profit = Some 950,
                raw_message = ''GOLD BUY @1900-1920 SL 1890 TP 1950''\<rparr>) \<and>
         get_pending_price
           \<lparr>trade_type = ''buy'', entry_price = None, entry_range = Some (1900, 1920),
            stop_loss = 1890, take_profit = Some 950,
            raw_message = ''GOLD BUY @1900-1920 SL 1890 TP 1950''\<rparr> ''auto'' 0 = Some 1900 \<and>
         map fst (sent (snd (snd
           (process_message api mgr w ''GOLD BUY @1900-1920 SL 1890 TP 1950'')))) =
           map fst (sent w) @
           [TRADE_ACTION_PENDING
              \<lparr>rq_symbol = symbol mgr, rq_volume = volume_min si,
               rq_type = (if 1900 < ask tk then ORDER_TYPE_BUY_LIMIT else ORDER_TYPE_BUY_STOP),
               rq_price = 1900, rq_sl = 1890,
               rq_tp = 1900 + target_profit mgr * trade_tick_size si /
                         (trade_tick_value si * volume_min si),
               rq_deviation = 20, rq_magic = 234007, rq_comment = ''XAU Bot v5.1 Pending'',
               rq_expiration = now api (venue w) + 4 * 3600\<rparr>]"
proof -
  let ?t = "\<lparr>trade_type = ''buy'', entry_price = None, entry_range = Some (1900, 1920),
                stop_loss = 1890, take_profit = Some 950,
                raw_message = ''GOLD BUY @1900-1920 SL 1890 TP 1950''\<rparr>"
  have price: "get_pending_price ?t ''auto'' 0 = Some 1900"
    by (simp add: get_pending_price_def)
  have vol: "get_minimum_volume api (venue w) mgr = volume_min si"
    using info by (simp add: get_minimum_volume_def)
  have ctp: "calculate_tp_for_profit api (venue w) mgr 1900 (trade_type ?t)
               (get_minimum_volume api (venue w) mgr) =
             Some (1900 + target_profit mgr * trade_tick_size si /
                     (trade_tick_value si * volume_min si))"
    using calculate_tp_buy [OF info nz(1) nz(2) nz(3)] vol by simp
  have pm: "process_message api mgr w ''GOLD BUY @1900-1920 SL 1890 TP 1950'' =
          (case place_pending_order api mgr w ?t (Some 1900) of
             (success, mgr', w') \<Rightarrow> (OrderAttempt ?t 1900 success, mgr', w'))"
    by (simp add: process_message_def gold_no_sl_update gold_extract policy price)
  have "snd (snd (process_message api mgr w ''GOLD BUY @1900-1920 SL 1890 TP 1950'')) =
        snd (snd (place_pending_order api mgr w ?t (Some 1900)))"
    unfolding pm by (simp split: prod.splits)
  with place_pending_order_sends [OF tick ctp tp] vol gold_extract price
  show ?thesis by simp
qed

theorem gold_signal_end_to_end_witness:
  "config_entry_strategy xau_manager = ''auto'' \<and> config_central_zone xau_manager = 0 \<and>
   symbol_info_tick quiet_venue (venue fresh_world) (symbol xau_manager) = Some xau_tick \<and>
   symbol_info_of quiet_venue (venue fresh_world) (symbol xau_manager) = Some xau_info \<and>
   map fst (sent (snd (snd
     (process_message quiet_venue xau_manager fresh_world
        ''GOLD BUY @1900-1920 SL 1890 TP 1950'')))) =
     [TRADE_ACTION_PENDING
        \<lparr>rq_symbol = ''XAUUSD'', rq_volume = 0.01, rq_type = ORDER_TYPE_BUY_STOP,
         rq_price = 1900, rq_sl = 1890, rq_tp = 1910,
         rq_deviation = 20, rq_magic = 234007, rq_comment = ''XAU Bot v5.1 Pending'',
         rq_expiration = 14400\<rparr>]"
proof -
  have policy: "config_entry_strategy xau_manager = ''auto''" "config_central_zone xau_manager = 0"
    by (simp_all add: config_entry_strategy_def config_central_zone_def xau_manager_def)
  have nz: "trade_tick_value xau_info \<noteq> 0" "trade_tick_size xau_info \<noteq> 0"
    "volume_min xau_info \<noteq> 0"
    by (simp_all add: xau_info_def)
  have tp: "1900 + target_profit xau_manager * trade_tick_size xau_info /
               (trade_tick_value xau_info * volume_min xau_info) \<noteq> 0"
    by (simp add: xau_info_def xau_manager_def)
  show ?thesis
    using gold_signal_end_to_end [OF policy quiet_tick quiet_info nz tp]
      policy quiet_tick quiet_info
    by (simp add: xau_info_def xau_manager_def xau_tick_def fresh_world_def quiet_venue_def
          static_venue_def)
qed

end
